theory Spec2Isabelle
  imports Main
begin

section \<open>Python values\<close>

text \<open>
  A Python \<open>str\<close> is a sequence of Unicode code points and is modelled as a list of
  naturals; \<open>U\<close> turns an Isabelle string literal into one.  A Python \<open>bytes\<close> value
  is a list of 8-bit characters.  The documents handed to the aggregation functions are
  the values a JSON parser produces: \<open>None\<close>, booleans, integers, strings, lists and
  dictionaries with string keys (insertion ordered, as association lists).  Floating
  point readings are outside the model.
\<close>

type_synonym pystr = "nat list"

type_synonym bytes = "char list"

definition U :: "string \<Rightarrow> pystr" where
  "U s = map of_char s"

datatype pyval = PNone | PBool bool | PInt int | PStr pystr
  | PList "pyval list" | PDict "(pystr \<times> pyval) list"

datatype error = TypeError | KeyError | AttributeError | IndexError
  | UnboundLocalError | UnicodeDecodeError | NoOptionError
  | RetriesExhaustedError | JSONDecodeError | BadRequestError
  | InvalidCredentialsError | OtherException | ValueError
  | Fatal pystr | FatalType error

text \<open>A raised exception ends the computation: it is the \<open>Inl\<close> of the result.\<close>

definition bindE :: "error + 'a \<Rightarrow> ('a \<Rightarrow> error + 'b) \<Rightarrow> error + 'b" where
  "bindE m f = (case m of Inl e \<Rightarrow> Inl e | Inr x \<Rightarrow> f x)"

text \<open>\<open>v[k]\<close> with a string key: only a dictionary can be subscripted by a string.\<close>

fun py_getitem :: "pyval \<Rightarrow> pystr \<Rightarrow> error + pyval" where
  "py_getitem (PDict kvs) k = (case map_of kvs k of None \<Rightarrow> Inl KeyError | Some v \<Rightarrow> Inr v)"
| "py_getitem _ k = Inl TypeError"

text \<open>\<open>v.get(k)\<close>: \<open>None\<close> for a missing key; only dictionaries have the method.\<close>

fun py_get :: "pyval \<Rightarrow> pystr \<Rightarrow> error + pyval" where
  "py_get (PDict kvs) k = (case map_of kvs k of None \<Rightarrow> Inr PNone | Some v \<Rightarrow> Inr v)"
| "py_get _ k = Inl AttributeError"

text \<open>
  The items a \<open>for\<close> loop visits: the elements of a list, the keys of a dictionary,
  the one-character strings of a string; anything else is not iterable.
\<close>

fun py_iter :: "pyval \<Rightarrow> error + pyval list" where
  "py_iter (PList xs) = Inr xs"
| "py_iter (PDict kvs) = Inr (map (\<lambda>kv. PStr (fst kv)) kvs)"
| "py_iter (PStr s) = Inr (map (\<lambda>c. PStr [c]) s)"
| "py_iter _ = Inl TypeError"

text \<open>Python's \<open>==\<close> on such values: \<open>True == 1\<close>, lists elementwise, dictionaries
  regardless of key order.\<close>

fun py_eq :: "pyval \<Rightarrow> pyval \<Rightarrow> bool" and dict_le :: "pyval \<Rightarrow> pyval \<Rightarrow> bool" where
  "py_eq PNone PNone = True"
| "py_eq (PBool a) (PBool b) = (a = b)"
| "py_eq (PBool a) (PInt i) = (i = (if a then 1 else 0))"
| "py_eq (PInt i) (PBool a) = (i = (if a then 1 else 0))"
| "py_eq (PInt i) (PInt j) = (i = j)"
| "py_eq (PStr s) (PStr t) = (s = t)"
| "py_eq (PList []) (PList []) = True"
| "py_eq (PList (x # xs)) (PList (y # ys)) = (py_eq x y \<and> py_eq (PList xs) (PList ys))"
| "py_eq (PDict a) (PDict b) = (length a = length b \<and> dict_le (PDict a) (PDict b))"
| "py_eq _ _ = False"
| "dict_le (PDict ((k, v) # a)) (PDict b) =
     ((case map_of b k of None \<Rightarrow> False | Some w \<Rightarrow> py_eq v w) \<and> dict_le (PDict a) (PDict b))"
| "dict_le _ _ = True"

section \<open>Category enumerations\<close>

datatype ThermalContext = INTAKE | CPU | MEMORY | SYSTEMBOARD | POWERSUPPLY

datatype FanContext = FAN

datatype PowerContext = POWER

fun ThermalContext_str :: "ThermalContext \<Rightarrow> pystr" where
  "ThermalContext_str INTAKE = U ''Intake''"
| "ThermalContext_str CPU = U ''CPU''"
| "ThermalContext_str MEMORY = U ''Memory''"
| "ThermalContext_str SYSTEMBOARD = U ''SystemBoard''"
| "ThermalContext_str POWERSUPPLY = U ''PowerSupply''"

fun FanContext_str :: "FanContext \<Rightarrow> pystr" where
  "FanContext_str FAN = U ''Fan''"

fun PowerContext_str :: "PowerContext \<Rightarrow> pystr" where
  "PowerContext_str POWER = U ''Power''"

section \<open>Names and dictionary keys\<close>

text \<open>
  The objects that name a metric and key the inner dictionary: the hashable JSON values
  and the members of the three enumerations.  A list or a dictionary is not hashable.
\<close>

datatype pyatom = ANone | ABool bool | AInt int | AStr pystr
  | AThermal ThermalContext | AFan FanContext | APower PowerContext

fun atom_of :: "pyval \<Rightarrow> pyatom option" where
  "atom_of PNone = Some ANone"
| "atom_of (PBool b) = Some (ABool b)"
| "atom_of (PInt i) = Some (AInt i)"
| "atom_of (PStr s) = Some (AStr s)"
| "atom_of (PList xs) = None"
| "atom_of (PDict kvs) = None"

fun digits :: "nat \<Rightarrow> pystr" where
  "digits n = (if n < 10 then [48 + n] else digits (n div 10) @ [48 + n mod 10])"

definition int_str :: "int \<Rightarrow> pystr" where
  "int_str i = (if i < 0 then 45 # digits (nat (- i)) else digits (nat i))"

text \<open>\<open>str(x)\<close>; the enumerations define \<open>__str__\<close> as their value.\<close>

fun py_str :: "pyatom \<Rightarrow> pystr" where
  "py_str ANone = U ''None''"
| "py_str (ABool b) = (if b then U ''True'' else U ''False'')"
| "py_str (AInt i) = int_str i"
| "py_str (AStr s) = s"
| "py_str (AThermal c) = ThermalContext_str c"
| "py_str (AFan c) = FanContext_str c"
| "py_str (APower c) = PowerContext_str c"

text \<open>Two keys are the same dictionary key when they are equal: \<open>True\<close> and \<open>1\<close> are.\<close>

fun key_norm :: "pyatom \<Rightarrow> pyatom" where
  "key_norm (ABool b) = AInt (if b then 1 else 0)"
| "key_norm a = a"

definition key_eq :: "pyatom \<Rightarrow> pyatom \<Rightarrow> bool" where
  "key_eq a b = (key_norm a = key_norm b)"

text \<open>\<open>d[k] = v\<close> on an insertion-ordered dictionary: an existing key keeps its place
  (and its key object) and gets the new value, a new key goes to the end.\<close>

fun dict_set :: "(pyatom \<times> 'v) list \<Rightarrow> pyatom \<Rightarrow> 'v \<Rightarrow> (pyatom \<times> 'v) list" where
  "dict_set [] k v = [(k, v)]"
| "dict_set ((k', v') # d) k v =
     (if key_eq k' k then (k', v) # d else (k', v') # dict_set d k v)"

fun dict_lookup :: "(pyatom \<times> 'v) list \<Rightarrow> pyatom \<Rightarrow> 'v option" where
  "dict_lookup [] k = None"
| "dict_lookup ((k', v') # d) k = (if key_eq k' k then Some v' else dict_lookup d k)"

text \<open>The keys of a dictionary that receives the keys \<open>ks\<close> one after the other.\<close>

definition add_key :: "pyatom list \<Rightarrow> pyatom \<Rightarrow> pyatom list" where
  "add_key ks k = (if list_ex (\<lambda>k'. key_eq k' k) ks then ks else ks @ [k])"

text \<open>A \<open>for\<close> loop whose body updates one dictionary; an exception in the body
  leaves the loop.\<close>

fun py_for :: "('a \<Rightarrow> 's \<Rightarrow> error + 's) \<Rightarrow> 'a list \<Rightarrow> 's \<Rightarrow> error + 's" where
  "py_for body [] d = Inr d"
| "py_for body (x # xs) d = bindE (body x d) (py_for body xs)"

section \<open>Strings\<close>

text \<open>The code points \<open>str.isspace\<close> accepts; \<open>str.split()\<close> without argument splits
  at runs of them and drops empty tokens.\<close>

definition py_isspace :: "nat \<Rightarrow> bool" where
  "py_isspace c = ((9 \<le> c \<and> c \<le> 13) \<or> (28 \<le> c \<and> c \<le> 32) \<or> c = 133 \<or> c = 160
     \<or> c = 5760 \<or> (8192 \<le> c \<and> c \<le> 8202) \<or> c = 8232 \<or> c = 8233 \<or> c = 8239
     \<or> c = 8287 \<or> c = 12288)"

fun split_acc :: "pystr \<Rightarrow> pystr \<Rightarrow> pystr list" where
  "split_acc [] tok = (if tok = [] then [] else [tok])"
| "split_acc (c # cs) tok =
     (if py_isspace c then (if tok = [] then split_acc cs [] else tok # split_acc cs [])
      else split_acc cs (tok @ [c]))"

definition py_split :: "pystr \<Rightarrow> pystr list" where
  "py_split s = split_acc s []"

section \<open>Metrics\<close>

datatype metric_class = CMonitorMetric | CTemperature | CPower

record metric =
  cls :: metric_class
  m_name :: pyatom
  m_value :: pyval
  m_unit :: pyval

definition MonitorMetric :: "pyatom \<Rightarrow> pyval \<Rightarrow> pyval \<Rightarrow> metric" where
  "MonitorMetric n v u = \<lparr>cls = CMonitorMetric, m_name = n, m_value = v, m_unit = u\<rparr>"

definition Temperature :: "pyatom \<Rightarrow> pyval \<Rightarrow> metric" where
  "Temperature n v = (MonitorMetric n v (PStr (U ''Celsius'')))\<lparr>cls := CTemperature\<rparr>"

definition Power :: "pyatom \<Rightarrow> pyval \<Rightarrow> metric" where
  "Power n v = (MonitorMetric n v (PStr (U ''Watts'')))\<lparr>cls := CPower\<rparr>"

text \<open>\<open>MonitorMetric.__eq__\<close>\<close>

definition metric_eq :: "metric \<Rightarrow> metric \<Rightarrow> bool" where
  "metric_eq self compared_metric =
     (py_str (m_name self) = py_str (m_name compared_metric)
      \<and> py_eq (m_value self) (m_value compared_metric)
      \<and> py_eq (m_unit self) (m_unit compared_metric))"

section \<open>Generic aggregation of the controller\<close>

type_synonym reading = "(pystr \<times> (pyatom \<times> metric) list) list"

text \<open>\<open>BMC.get_thermal\<close> and \<open>BMC.get_power\<close> of the base class; vendors override them,
  so the aggregation functions take the document as their argument.\<close>

definition get_thermal :: pyval where
  "get_thermal = PDict []"

definition get_power :: pyval where
  "get_power = PDict []"

text \<open>One round of the loop of \<open>read_fans\<close>: the three subscripts are evaluated first
  (a missing key raises), then the name is hashed as the key of the inner dictionary.\<close>

definition fan_step :: "pyval \<Rightarrow> (pyatom \<times> metric) list \<Rightarrow> error + (pyatom \<times> metric) list" where
  "fan_step f d =
     bindE (py_getitem f (U ''Name'')) (\<lambda>name.
     bindE (py_getitem f (U ''Reading'')) (\<lambda>r.
     bindE (py_getitem f (U ''ReadingUnits'')) (\<lambda>u.
       (case atom_of name of None \<Rightarrow> Inl TypeError
        | Some k \<Rightarrow> Inr (dict_set d k (MonitorMetric k r u))))))"


definition read_fans :: "pyval \<Rightarrow> error + reading" where
  "read_fans thermal =
     bindE (py_get thermal (U ''Fans'')) (\<lambda>fv.
     bindE (py_iter fv) (\<lambda>fs.
     bindE (py_for fan_step fs []) (\<lambda>inner.
       Inr [(FanContext_str FAN, inner)])))"

text \<open>\<open>read_power_consumption\<close>: every control entry stores under the one key "Chassis".\<close>

definition consumption_step :: "pyval \<Rightarrow> (pyatom \<times> metric) list \<Rightarrow> error + (pyatom \<times> metric) list" where
  "consumption_step power_entry d =
     bindE (py_getitem power_entry (U ''PowerConsumedWatts'')) (\<lambda>w.
       Inr (dict_set d (AStr (U ''Chassis'')) (Power (AStr (U ''Chassis'')) w)))"

definition read_power_consumption :: "pyval \<Rightarrow> error + reading" where
  "read_power_consumption power_doc =
     bindE (py_get power_doc (U ''PowerControl'')) (\<lambda>pv.
     bindE (py_iter pv) (\<lambda>ps.
     bindE (py_for consumption_step ps []) (\<lambda>inner.
       Inr [(PowerContext_str POWER, inner)])))"

text \<open>\<open>read_power_supplies\<close>: the right-hand side is evaluated first, so
  \<open>psu["Name"]\<close>, \<open>.split()\<close> (only a string has it), \<open>[0]\<close> and
  \<open>psu["PowerInputWatts"]\<close> raise in this order; the key is the whole name.\<close>

definition supply_step :: "pyval \<Rightarrow> (pyatom \<times> metric) list \<Rightarrow> error + (pyatom \<times> metric) list" where
  "supply_step psu d =
     bindE (py_getitem psu (U ''Name'')) (\<lambda>name.
       (case name of
          PStr s \<Rightarrow>
            (case py_split s of
               [] \<Rightarrow> Inl IndexError
             | tok # rest \<Rightarrow>
                 bindE (py_getitem psu (U ''PowerInputWatts'')) (\<lambda>w.
                   Inr (dict_set d (AStr s) (Power (AStr tok) w))))
        | _ \<Rightarrow> Inl AttributeError))"

definition read_power_supplies :: "pyval \<Rightarrow> error + reading" where
  "read_power_supplies power_doc =
     bindE (py_get power_doc (U ''PowerSupplies'')) (\<lambda>pv.
     bindE (py_iter pv) (\<lambda>ps.
     bindE (py_for supply_step ps []) (\<lambda>inner.
       Inr [(PowerContext_str POWER, inner)])))"

section \<open>Local discovery: \<open>parse_cmd\<close> and \<open>get_ip\<close>\<close>

text \<open>\<open>stdout.split(b"\\n")\<close>: the pieces between the newline bytes, empty ones included.\<close>

fun split_nl :: "bytes \<Rightarrow> bytes \<Rightarrow> bytes list" where
  "split_nl [] cur = [cur]"
| "split_nl (c # cs) cur =
     (if c = CHR 0x0A then cur # split_nl cs [] else split_nl cs (cur @ [c]))"

definition bytes_split_lines :: "bytes \<Rightarrow> bytes list" where
  "bytes_split_lines s = split_nl s []"

text \<open>\<open>b": " in row\<close>\<close>

fun has_sep :: "bytes \<Rightarrow> bool" where
  "has_sep (a # b # cs) = ((a = CHR '':'' \<and> b = CHR '' '') \<or> has_sep (b # cs))"
| "has_sep cs = False"

text \<open>\<open>row.split(b": ", 1)\<close> when the separator occurs: the part before its first
  occurrence and the part after it.\<close>

fun split_sep :: "bytes \<Rightarrow> (bytes \<times> bytes) option" where
  "split_sep (a # b # cs) =
     (if a = CHR '':'' \<and> b = CHR '' '' then Some ([], cs)
      else map_option (\<lambda>kv. (a # fst kv, snd kv)) (split_sep (b # cs)))"
| "split_sep cs = None"

text \<open>\<open>bytes.strip()\<close> removes the six ASCII white space bytes at both ends.\<close>

definition ascii_ws :: "nat \<Rightarrow> bool" where
  "ascii_ws n = (n = 32 \<or> (9 \<le> n \<and> n \<le> 13))"

definition bytes_isspace :: "char \<Rightarrow> bool" where
  "bytes_isspace c = ascii_ws (of_char c)"

definition bytes_strip :: "bytes \<Rightarrow> bytes" where
  "bytes_strip s = rev (dropWhile bytes_isspace (rev (dropWhile bytes_isspace s)))"

text \<open>\<open>.decode("utf-8")\<close>, strict: \<open>None\<close> stands for UnicodeDecodeError.\<close>

definition cont_byte :: "char \<Rightarrow> bool" where
  "cont_byte c = (128 \<le> (of_char c :: nat) \<and> (of_char c :: nat) \<le> 191)"

definition low6 :: "char \<Rightarrow> nat" where
  "low6 c = of_char c - 128"

fun utf8_decode :: "bytes \<Rightarrow> pystr option" where
  "utf8_decode [] = Some []"
| "utf8_decode (c # cs) =
     (let b0 = (of_char c :: nat) in
      if b0 < 128 then map_option (\<lambda>r. b0 # r) (utf8_decode cs)
      else if 194 \<le> b0 \<and> b0 \<le> 223 then
        (case cs of
           c1 # r1 \<Rightarrow>
             if cont_byte c1
             then map_option (\<lambda>r. ((b0 - 192) * 64 + low6 c1) # r) (utf8_decode r1)
             else None
         | _ \<Rightarrow> None)
      else if 224 \<le> b0 \<and> b0 \<le> 239 then
        (case cs of
           c1 # c2 # r2 \<Rightarrow>
             if cont_byte c1 \<and> cont_byte c2
                \<and> (b0 = 224 \<longrightarrow> 160 \<le> (of_char c1 :: nat))
                \<and> (b0 = 237 \<longrightarrow> (of_char c1 :: nat) \<le> 159)
             then map_option (\<lambda>r. ((b0 - 224) * 4096 + low6 c1 * 64 + low6 c2) # r)
                    (utf8_decode r2)
             else None
         | _ \<Rightarrow> None)
      else if 240 \<le> b0 \<and> b0 \<le> 244 then
        (case cs of
           c1 # c2 # c3 # r3 \<Rightarrow>
             if cont_byte c1 \<and> cont_byte c2 \<and> cont_byte c3
                \<and> (b0 = 240 \<longrightarrow> 144 \<le> (of_char c1 :: nat))
                \<and> (b0 = 244 \<longrightarrow> (of_char c1 :: nat) \<le> 143)
             then map_option
                    (\<lambda>r. ((b0 - 240) * 262144 + low6 c1 * 4096 + low6 c2 * 64 + low6 c3) # r)
                    (utf8_decode r3)
             else None
         | _ \<Rightarrow> None)
      else None)"

text \<open>The dictionary \<open>self.bmc\<close>: string keys, string values.\<close>

type_synonym bmc_dict = "(pyatom \<times> pystr) list"

text \<open>One round of the loop of \<open>parse_cmd\<close>.  The value is decoded before the key; a
  decoding error leaves the dictionary as it was before this row.\<close>

definition parse_row :: "bytes \<Rightarrow> bmc_dict \<Rightarrow> error + bmc_dict" where
  "parse_row row b =
     (if has_sep row then
        (case split_sep row of
           None \<Rightarrow> Inl ValueError
         | Some (key, val) \<Rightarrow>
             if bytes_strip key \<noteq> [] then
               (case utf8_decode (bytes_strip val) of
                  None \<Rightarrow> Inl UnicodeDecodeError
                | Some v \<Rightarrow>
                    (case utf8_decode (bytes_strip key) of
                       None \<Rightarrow> Inl UnicodeDecodeError
                     | Some k \<Rightarrow> Inr (dict_set b (AStr k) v)))
             else Inr b)
      else Inr b)"

text \<open>The loop mutates \<open>self.bmc\<close> in place: the result is the dictionary after the call
  together with the exception that ended the call, if any.\<close>

fun parse_rows :: "bytes list \<Rightarrow> bmc_dict \<Rightarrow> bmc_dict \<times> error option" where
  "parse_rows [] b = (b, None)"
| "parse_rows (row # rows) b =
     (case parse_row row b of Inl e \<Rightarrow> (b, Some e) | Inr b' \<Rightarrow> parse_rows rows b')"

definition parse_cmd :: "bytes \<Rightarrow> bytes \<Rightarrow> bmc_dict \<Rightarrow> bmc_dict \<times> error option" where
  "parse_cmd stdout stderr b = parse_rows (bytes_split_lines stdout) b"

text \<open>A string without one of the six ASCII white space characters at either end.\<close>

definition trimmed :: "pystr \<Rightarrow> bool" where
  "trimmed s = (case s of [] \<Rightarrow> True | c # cs \<Rightarrow> \<not> ascii_ws c \<and> \<not> ascii_ws (last (c # cs)))"

text \<open>An entry of the discovery mapping: the key is a string that is not empty, and the
  key and the value are trimmed.\<close>

definition entry_ok :: "pyatom \<times> pystr \<Rightarrow> bool" where
  "entry_ok kv = (case fst kv of
        AStr k \<Rightarrow> k \<noteq> [] \<and> trimmed k \<and> trimmed (snd kv)
      | _ \<Rightarrow> False)"

definition bmc_inv :: "bmc_dict \<Rightarrow> bool" where
  "bmc_inv b = list_all entry_ok b"

text \<open>
  Modelled from the spec: \<open>h.fatal\<close> (\<open>utils/helpers.py\<close> is not among the sources).
  Fatal conditions terminate the run with a descriptive message: the call does not
  return and what it raises is no ordinary exception.
\<close>

definition fatal :: "pystr \<Rightarrow> error + unit" where
  "fatal reason = Inl (Fatal reason)"

text \<open>\<open>get_ip\<close>: were \<open>h.fatal\<close> to return, \<open>ip\<close> would be unbound at the \<open>return\<close>.\<close>

definition get_ip :: "bmc_dict \<Rightarrow> error + pystr" where
  "get_ip b =
     (case dict_lookup b (AStr (U ''IP Address'')) of
        Some ip \<Rightarrow> Inr ip
      | None \<Rightarrow> bindE (fatal (U ''Cannot detect BMC ip'')) (\<lambda>_. Inl UnboundLocalError))"

section \<open>Fetching one Redfish url\<close>

text \<open>Truth value of a value, and \<open>x in v\<close> for a string \<open>x\<close>: a key of a dictionary, an
  element of a list, a substring of a string; other values are not containers.\<close>

fun py_truthy :: "pyval \<Rightarrow> bool" where
  "py_truthy PNone = False"
| "py_truthy (PBool b) = b"
| "py_truthy (PInt i) = (i \<noteq> 0)"
| "py_truthy (PStr s) = (s \<noteq> [])"
| "py_truthy (PList xs) = (xs \<noteq> [])"
| "py_truthy (PDict kvs) = (kvs \<noteq> [])"

fun starts_with :: "'a list \<Rightarrow> 'a list \<Rightarrow> bool" where
  "starts_with xs [] = True"
| "starts_with [] (y # ys) = False"
| "starts_with (x # xs) (y # ys) = (x = y \<and> starts_with xs ys)"

fun has_substring :: "'a list \<Rightarrow> 'a list \<Rightarrow> bool" where
  "has_substring [] ys = (ys = [])"
| "has_substring (x # xs) ys = (starts_with (x # xs) ys \<or> has_substring xs ys)"

fun py_contains :: "pystr \<Rightarrow> pyval \<Rightarrow> error + bool" where
  "py_contains x (PDict kvs) = Inr (list_ex (\<lambda>kv. fst kv = x) kvs)"
| "py_contains x (PList xs) = Inr (list_ex (\<lambda>v. py_eq v (PStr x)) xs)"
| "py_contains x (PStr s) = Inr (has_substring s x)"
| "py_contains x _ = Inl TypeError"

text \<open>
  The assignment \<open>redfish = ...\<close> makes \<open>redfish\<close> a local variable of the whole function, so
  the expression \<open>redfish.rest.v1.RetriesExhaustedError\<close> of the first \<open>except\<close> clause reads
  that local variable.  When an exception reaches the clauses, the variable is unbound
  (the exception came from the right-hand side of the assignment) and reading it raises
  UnboundLocalError, or it holds the fetched value, which has no attribute \<open>rest\<close>.
\<close>

definition except_clauses :: "pyval option \<Rightarrow> error \<Rightarrow> error + pyval" where
  "except_clauses local_redfish exc =
     (case local_redfish of None \<Rightarrow> Inl UnboundLocalError | Some v \<Rightarrow> Inl AttributeError)"

text \<open>\<open>get_redfish_url\<close>, given what \<open>self.redfish_obj.get(url, None).dict\<close> evaluates to:
  a value or a raised exception.  The second component tells whether an error was logged.\<close>

definition get_redfish_url :: "error + pyval \<Rightarrow> (error + pyval) \<times> bool" where
  "get_redfish_url fetched =
     (case fetched of
        Inl exc \<Rightarrow> (except_clauses None exc, False)
      | Inr redfish \<Rightarrow>
          if py_truthy redfish then
            (case py_contains (U ''error'') redfish of
               Inl exc \<Rightarrow> (except_clauses (Some redfish) exc, False)
             | Inr found \<Rightarrow> if found then (Inr (PDict []), True) else (Inr redfish, False))
          else (Inr redfish, False))"

section \<open>The vendor and its controller: \<open>prepare\<close> and \<open>connect_redfish\<close>\<close>











section \<open>Basic facts\<close>

lemma U_eq_iff [simp]: "U a = U b \<longleftrightarrow> a = b"
  unfolding U_def by (simp add: inj_map_eq_map inj_on_def)

lemma bindE_Inl [simp]: "bindE (Inl e) f = Inl e"
  by (simp add: bindE_def)

lemma bindE_Inr [simp]: "bindE (Inr x) f = f x"
  by (simp add: bindE_def)

lemma bindE_eq_Inr: "bindE m f = Inr y \<longleftrightarrow> (\<exists>x. m = Inr x \<and> f x = Inr y)"
  by (cases m) simp_all

lemma read_fans_no_key:
  "map_of kvs (U ''Fans'') = None \<Longrightarrow> read_fans (PDict kvs) = Inl TypeError"
  by (simp add: read_fans_def)

lemma key_eq_refl [simp]: "key_eq k k"
  by (simp add: key_eq_def)

lemma key_eq_sym: "key_eq a b \<Longrightarrow> key_eq b a"
  by (simp add: key_eq_def)

lemma key_eq_trans: "key_eq a b \<Longrightarrow> key_eq b c \<Longrightarrow> key_eq a c"
  by (simp add: key_eq_def)

lemma key_eq_AStr [simp]: "key_eq (AStr s) k \<longleftrightarrow> k = AStr s"
  by (cases k) (auto simp: key_eq_def)

lemma key_eq_AStr2 [simp]: "key_eq k (AStr s) \<longleftrightarrow> k = AStr s"
  by (cases k) (auto simp: key_eq_def)

lemma dict_lookup_set:
  "dict_lookup (dict_set d k v) k' = (if key_eq k k' then Some v else dict_lookup d k')"
  by (induction d) (auto simp: key_eq_def)

lemma dict_set_twice: "dict_set (dict_set d k v) k v' = dict_set d k v'"
  by (induction d) auto

lemma keys_dict_set: "map fst (dict_set d k v) = add_key (map fst d) k"
  by (induction d) (force simp: add_key_def list_ex_iff)+

lemma dict_lookup_Some_mem:
  "dict_lookup d k = Some v \<Longrightarrow> \<exists>k'. (k', v) \<in> set d \<and> key_eq k' k"
  by (induction d) (auto split: if_splits)

lemma split_acc_Nil_iff: "split_acc s tok = [] \<longleftrightarrow> tok = [] \<and> (\<forall>c\<in>set s. py_isspace c)"
  by (induction s arbitrary: tok) auto

lemma py_split_Nil_iff: "py_split s = [] \<longleftrightarrow> (\<forall>c\<in>set s. py_isspace c)"
  by (simp add: py_split_def split_acc_Nil_iff)


lemma consumption_step_ok:
  "py_getitem e (U ''PowerConsumedWatts'') = Inr w \<Longrightarrow>
   consumption_step e d = Inr (dict_set d (AStr (U ''Chassis'')) (Power (AStr (U ''Chassis'')) w))"
  by (simp add: consumption_step_def)

lemma consumption_loop:
  "\<forall>e\<in>set es. \<exists>w. py_getitem e (U ''PowerConsumedWatts'') = Inr w \<Longrightarrow> es \<noteq> [] \<Longrightarrow>
   py_getitem (last es) (U ''PowerConsumedWatts'') = Inr w \<Longrightarrow>
   py_for consumption_step es d
     = Inr (dict_set d (AStr (U ''Chassis'')) (Power (AStr (U ''Chassis'')) w))"
proof (induction es arbitrary: d)
  case Nil
  then show ?case by simp
next
  case (Cons e es)
  from Cons.prems(1) obtain w0 where w0: "py_getitem e (U ''PowerConsumedWatts'') = Inr w0"
    by auto
  show ?case
  proof (cases "es = []")
    case True
    with Cons.prems(3) w0 show ?thesis
      by (simp add: consumption_step_ok)
  next
    case False
    with Cons.prems have "py_for consumption_step es (dict_set d (AStr (U ''Chassis'')) (Power (AStr (U ''Chassis'')) w0))
      = Inr (dict_set (dict_set d (AStr (U ''Chassis'')) (Power (AStr (U ''Chassis'')) w0))
               (AStr (U ''Chassis'')) (Power (AStr (U ''Chassis'')) w))"
      by (intro Cons.IH) auto
    with w0 show ?thesis
      by (simp add: consumption_step_ok dict_set_twice)
  qed
qed


lemma py_getitem_error: "py_getitem v k = Inl e \<Longrightarrow> e = KeyError \<or> e = TypeError"
  by (cases v) (auto split: option.splits)

lemma supply_step_shaped:
  "py_getitem e (U ''Name'') = Inr (PStr s) \<Longrightarrow> py_getitem e (U ''PowerInputWatts'') = Inr w \<Longrightarrow>
   supply_step e d = (case py_split s of [] \<Rightarrow> Inl IndexError
      | tok # rest \<Rightarrow> Inr (dict_set d (AStr s) (Power (AStr tok) w)))"
  by (simp add: supply_step_def split: list.splits)

lemma supply_step_IndexError:
  "supply_step e d = Inl IndexError \<Longrightarrow>
   \<exists>s. py_getitem e (U ''Name'') = Inr (PStr s) \<and> (\<forall>c\<in>set s. py_isspace c)"
proof (cases "py_getitem e (U ''Name'')")
  case (Inl err)
  assume "supply_step e d = Inl IndexError"
  with Inl py_getitem_error [OF Inl] show ?thesis
    by (auto simp: supply_step_def)
next
  case (Inr name)
  assume a: "supply_step e d = Inl IndexError"
  show ?thesis
  proof (cases name)
    case (PStr s)
    show ?thesis
    proof (cases "py_split s")
      case Nil
      with Inr PStr show ?thesis
        by (simp add: py_split_Nil_iff)
    next
      case (Cons tok rest)
      with a Inr PStr have "bindE (py_getitem e (U ''PowerInputWatts''))
          (\<lambda>w. Inr (dict_set d (AStr s) (Power (AStr tok) w))) = Inl IndexError"
        by (simp add: supply_step_def)
      then have False
        by (cases "py_getitem e (U ''PowerInputWatts'')") (auto dest: py_getitem_error)
      then show ?thesis ..
    qed
  qed (use a Inr in \<open>simp_all add: supply_step_def\<close>)
qed

lemma supply_loop_IndexError:
  "py_for supply_step es d = Inl IndexError \<Longrightarrow>
   \<exists>e\<in>set es. \<exists>s. py_getitem e (U ''Name'') = Inr (PStr s) \<and> (\<forall>c\<in>set s. py_isspace c)"
proof (induction es arbitrary: d)
  case Nil
  then show ?case by simp
next
  case (Cons e es)
  show ?case
  proof (cases "supply_step e d")
    case (Inl err)
    with Cons.prems have "supply_step e d = Inl IndexError" by simp
    from supply_step_IndexError [OF this] show ?thesis by auto
  next
    case (Inr d1)
    with Cons.prems have "py_for supply_step es d1 = Inl IndexError" by simp
    from Cons.IH [OF this] show ?thesis by auto
  qed
qed

lemma supply_loop_shaped:
  "\<forall>e\<in>set es. \<exists>s w. py_getitem e (U ''Name'') = Inr (PStr s)
       \<and> py_getitem e (U ''PowerInputWatts'') = Inr w \<Longrightarrow>
   (if \<exists>e\<in>set es. \<exists>s. py_getitem e (U ''Name'') = Inr (PStr s) \<and> (\<forall>c\<in>set s. py_isspace c)
    then py_for supply_step es d = Inl IndexError
    else \<exists>d'. py_for supply_step es d = Inr d')"
proof (induction es arbitrary: d)
  case Nil
  then show ?case by simp
next
  case (Cons e es)
  from Cons.prems obtain s w where sw: "py_getitem e (U ''Name'') = Inr (PStr s)"
      "py_getitem e (U ''PowerInputWatts'') = Inr w"
    by auto
  have rest: "\<forall>e\<in>set es. \<exists>s w. py_getitem e (U ''Name'') = Inr (PStr s)
       \<and> py_getitem e (U ''PowerInputWatts'') = Inr w"
    using Cons.prems by simp
  show ?case
  proof (cases "py_split s")
    case Nil
    then have "\<forall>c\<in>set s. py_isspace c" by (simp add: py_split_Nil_iff)
    with sw Nil show ?thesis
      by (auto simp: supply_step_shaped)
  next
    case (Cons tok more)
    then have nb: "\<not> (\<forall>c\<in>set s. py_isspace c)"
      by (simp flip: py_split_Nil_iff)
    from sw Cons have step: "supply_step e d = Inr (dict_set d (AStr s) (Power (AStr tok) w))"
      by (simp add: supply_step_shaped)
    from Cons.IH [OF rest, of "dict_set d (AStr s) (Power (AStr tok) w)"] step sw nb
    show ?thesis by auto
  qed
qed


lemma supply_step_Inr:
  "supply_step e d = Inr d' \<Longrightarrow>
   \<exists>s tok rest w. py_getitem e (U ''Name'') = Inr (PStr s) \<and> py_split s = tok # rest
     \<and> py_getitem e (U ''PowerInputWatts'') = Inr w
     \<and> d' = dict_set d (AStr s) (Power (AStr tok) w)"
proof -
  assume a: "supply_step e d = Inr d'"
  then obtain name where n: "py_getitem e (U ''Name'') = Inr name"
    by (cases "py_getitem e (U ''Name'')") (simp_all add: supply_step_def)
  with a obtain s where s: "name = PStr s"
    by (cases name) (simp_all add: supply_step_def)
  with a n obtain tok rest where t: "py_split s = tok # rest"
    by (cases "py_split s") (simp_all add: supply_step_def)
  with a n s obtain w where "py_getitem e (U ''PowerInputWatts'') = Inr w"
      "d' = dict_set d (AStr s) (Power (AStr tok) w)"
    by (cases "py_getitem e (U ''PowerInputWatts'')") (auto simp: supply_step_def)
  with n s t show ?thesis by blast
qed

lemma supply_loop_lookup:
  "py_for supply_step es d = Inr d' \<Longrightarrow>
   (if filter (\<lambda>e. py_getitem e (U ''Name'') = Inr (PStr s)) es = []
    then dict_lookup d' (AStr s) = dict_lookup d (AStr s)
    else \<exists>tok rest w. py_split s = tok # rest
       \<and> py_getitem (last (filter (\<lambda>e. py_getitem e (U ''Name'') = Inr (PStr s)) es))
            (U ''PowerInputWatts'') = Inr w
       \<and> dict_lookup d' (AStr s) = Some (Power (AStr tok) w))"
proof (induction es arbitrary: d)
  case Nil
  then show ?case by simp
next
  case (Cons e es)
  from Cons.prems obtain d1 where d1: "supply_step e d = Inr d1" "py_for supply_step es d1 = Inr d'"
    by (auto simp: bindE_eq_Inr)
  from supply_step_Inr [OF d1(1)] obtain s0 tok0 rest0 w0 where
    e: "py_getitem e (U ''Name'') = Inr (PStr s0)" "py_split s0 = tok0 # rest0"
       "py_getitem e (U ''PowerInputWatts'') = Inr w0"
       "d1 = dict_set d (AStr s0) (Power (AStr tok0) w0)"
    by blast
  note IH = Cons.IH [OF d1(2)]
  show ?case
  proof (cases "filter (\<lambda>e. py_getitem e (U ''Name'') = Inr (PStr s)) es = []")
    case False
    with IH show ?thesis by simp
  next
    case True
    with IH have l: "dict_lookup d' (AStr s) = dict_lookup d1 (AStr s)" by simp
    show ?thesis
    proof (cases "s0 = s")
      case True
      with l e \<open>filter _ es = []\<close> show ?thesis
        by (simp add: dict_lookup_set)
    next
      case False
      with l e \<open>filter _ es = []\<close> show ?thesis
        by (simp add: dict_lookup_set)
    qed
  qed
qed











lemma supply_loop_returns:
  assumes "\<forall>e\<in>set es. \<exists>s w. py_getitem e (U ''Name'') = Inr (PStr s)
       \<and> (\<exists>c\<in>set s. \<not> py_isspace c) \<and> py_getitem e (U ''PowerInputWatts'') = Inr w"
  shows "\<exists>d'. py_for supply_step es d = Inr d'"
proof -
  have sh: "\<forall>e\<in>set es. \<exists>s w. py_getitem e (U ''Name'') = Inr (PStr s)
       \<and> py_getitem e (U ''PowerInputWatts'') = Inr w"
    using assms by blast
  have nb: "\<not> (\<exists>e\<in>set es. \<exists>s. py_getitem e (U ''Name'') = Inr (PStr s)
       \<and> (\<forall>c\<in>set s. py_isspace c))"
  proof
    assume "\<exists>e\<in>set es. \<exists>s. py_getitem e (U ''Name'') = Inr (PStr s) \<and> (\<forall>c\<in>set s. py_isspace c)"
    then obtain e s where e: "e \<in> set es" "py_getitem e (U ''Name'') = Inr (PStr s)"
        "\<forall>c\<in>set s. py_isspace c"
      by blast
    from assms e(1) obtain s' where "py_getitem e (U ''Name'') = Inr (PStr s')"
        "\<exists>c\<in>set s'. \<not> py_isspace c"
      by blast
    with e(2,3) show False by simp
  qed
  from supply_loop_shaped [OF sh, of d] nb show ?thesis
    by (simp split: if_splits)
qed








lemma last_dropWhile: "dropWhile P xs \<noteq> [] \<Longrightarrow> last (dropWhile P xs) = last xs"
  by (induction xs) (auto split: if_splits)

lemma bytes_strip_ends:
  assumes "bytes_strip b = x # xs"
  shows "\<not> bytes_isspace x \<and> \<not> bytes_isspace (last (x # xs))"
proof -
  define ys where "ys = dropWhile bytes_isspace b"
  define zs where "zs = dropWhile bytes_isspace (rev ys)"
  have st: "bytes_strip b = rev zs"
    by (simp add: bytes_strip_def ys_def zs_def)
  with assms have zne: "zs \<noteq> []" by auto
  then have yne: "ys \<noteq> []" by (auto simp: zs_def)
  have "\<not> bytes_isspace (hd zs)"
    using zne unfolding zs_def by (rule hd_dropWhile)
  moreover have "last (x # xs) = hd zs"
    using assms st zne by (metis last_rev)
  moreover have "last zs = last (rev ys)"
    using zne unfolding zs_def by (rule last_dropWhile)
  then have "last zs = hd ys"
    using yne by (simp add: last_rev)
  moreover have "\<not> bytes_isspace (hd ys)"
    using yne unfolding ys_def by (rule hd_dropWhile)
  moreover have "x = last zs"
    using assms st zne by (metis hd_rev list.sel(1))
  ultimately show ?thesis by simp
qed

lemma utf8_decode_step:
  assumes "utf8_decode (c # cs) = Some s"
  shows "\<exists>cp r pre rest. s = cp # r \<and> cs = pre @ rest \<and> utf8_decode rest = Some r
     \<and> (ascii_ws cp \<longrightarrow> pre = [] \<and> bytes_isspace c)"
proof -
  consider (one) "(of_char c :: nat) < 128"
    | (two) "194 \<le> (of_char c :: nat)" "(of_char c :: nat) \<le> 223"
    | (three) "224 \<le> (of_char c :: nat)" "(of_char c :: nat) \<le> 239"
    | (four) "240 \<le> (of_char c :: nat)" "(of_char c :: nat) \<le> 244"
    | (bad) "128 \<le> (of_char c :: nat)" "(of_char c :: nat) < 194 \<or> 244 < (of_char c :: nat)"
    by linarith
  then show ?thesis
  proof cases
    case one
    with assms obtain r where r: "utf8_decode cs = Some r" "s = of_char c # r"
      by auto
    have "s = of_char c # r \<and> cs = [] @ cs \<and> utf8_decode cs = Some r
        \<and> (ascii_ws (of_char c) \<longrightarrow> [] = ([] :: bytes) \<and> bytes_isspace c)"
      using r by (simp add: bytes_isspace_def)
    then show ?thesis by blast
  next
    case two
    with assms obtain c1 r1 r where r: "cs = c1 # r1" "cont_byte c1" "utf8_decode r1 = Some r"
        "s = ((of_char c - 192) * 64 + low6 c1) # r"
      by (auto simp: Let_def split: list.splits if_splits)
    have "\<not> ascii_ws ((of_char c - 192) * 64 + low6 c1)"
      unfolding ascii_ws_def using two by arith
    with r have "s = ((of_char c - 192) * 64 + low6 c1) # r \<and> cs = [c1] @ r1
        \<and> utf8_decode r1 = Some r
        \<and> (ascii_ws ((of_char c - 192) * 64 + low6 c1) \<longrightarrow> [c1] = [] \<and> bytes_isspace c)"
      by simp
    then show ?thesis by blast
  next
    case three
    with assms obtain c1 c2 r2 r where r: "cs = c1 # c2 # r2" "cont_byte c1" "cont_byte c2"
        "of_char c = (224::nat) \<longrightarrow> 160 \<le> (of_char c1 :: nat)"
        "utf8_decode r2 = Some r"
        "s = ((of_char c - 224) * 4096 + low6 c1 * 64 + low6 c2) # r"
      by (auto simp: Let_def split: list.splits if_splits)
    have "\<not> ascii_ws ((of_char c - 224) * 4096 + low6 c1 * 64 + low6 c2)"
    proof (cases "of_char c = (224::nat)")
      case True
      with r(4) have "32 \<le> low6 c1" by (simp add: low6_def)
      then show ?thesis by (simp add: ascii_ws_def)
    next
      case False
      with three have "1 \<le> (of_char c :: nat) - 224" by simp
      then have "4096 \<le> ((of_char c :: nat) - 224) * 4096" by simp
      then show ?thesis by (simp add: ascii_ws_def)
    qed
    with r have "s = ((of_char c - 224) * 4096 + low6 c1 * 64 + low6 c2) # r
        \<and> cs = [c1, c2] @ r2 \<and> utf8_decode r2 = Some r
        \<and> (ascii_ws ((of_char c - 224) * 4096 + low6 c1 * 64 + low6 c2)
             \<longrightarrow> [c1, c2] = [] \<and> bytes_isspace c)"
      by simp
    then show ?thesis by blast
  next
    case four
    with assms obtain c1 c2 c3 r3 r where r: "cs = c1 # c2 # c3 # r3"
        "of_char c = (240::nat) \<longrightarrow> 144 \<le> (of_char c1 :: nat)"
        "utf8_decode r3 = Some r"
        "s = ((of_char c - 240) * 262144 + low6 c1 * 4096 + low6 c2 * 64 + low6 c3) # r"
      by (auto simp: Let_def split: list.splits if_splits)
    have "\<not> ascii_ws ((of_char c - 240) * 262144 + low6 c1 * 4096 + low6 c2 * 64 + low6 c3)"
    proof (cases "of_char c = (240::nat)")
      case True
      with r(2) have "16 \<le> low6 c1" by (simp add: low6_def)
      then show ?thesis by (simp add: ascii_ws_def)
    next
      case False
      with four have "1 \<le> (of_char c :: nat) - 240" by simp
      then have "262144 \<le> ((of_char c :: nat) - 240) * 262144" by simp
      then show ?thesis by (simp add: ascii_ws_def)
    qed
    with r have "s = ((of_char c - 240) * 262144 + low6 c1 * 4096 + low6 c2 * 64 + low6 c3) # r
        \<and> cs = [c1, c2, c3] @ r3 \<and> utf8_decode r3 = Some r
        \<and> (ascii_ws ((of_char c - 240) * 262144 + low6 c1 * 4096 + low6 c2 * 64 + low6 c3)
             \<longrightarrow> [c1, c2, c3] = [] \<and> bytes_isspace c)"
      by simp
    then show ?thesis by blast
  next
    case bad
    with assms have False by auto
    then show ?thesis ..
  qed
qed

lemma utf8_decode_Nil_iff: "utf8_decode bs = Some [] \<longleftrightarrow> bs = []"
proof (cases bs)
  case Nil
  then show ?thesis by simp
next
  case (Cons c cs)
  show ?thesis
  proof
    assume "utf8_decode bs = Some []"
    with Cons utf8_decode_step [of c cs "[]"] show "bs = []" by blast
  next
    assume "bs = []"
    with Cons show "utf8_decode bs = Some []" by simp
  qed
qed

lemma utf8_decode_hd:
  "utf8_decode (c # cs) = Some (cp # r) \<Longrightarrow> ascii_ws cp \<Longrightarrow> bytes_isspace c"
  using utf8_decode_step [of c cs "cp # r"] by auto

lemma utf8_decode_last:
  "utf8_decode bs = Some s \<Longrightarrow> bs \<noteq> [] \<Longrightarrow> ascii_ws (last s) \<Longrightarrow> bytes_isspace (last bs)"
proof (induction bs arbitrary: s rule: length_induct)
  case (1 bs)
  from "1.prems"(2) obtain c cs where bs: "bs = c # cs" by (cases bs) auto
  from utf8_decode_step [of c cs s] "1.prems"(1) bs obtain cp r pre rest where
    st: "s = cp # r" "cs = pre @ rest" "utf8_decode rest = Some r"
        "ascii_ws cp \<longrightarrow> pre = [] \<and> bytes_isspace c"
    by blast
  show ?case
  proof (cases "r = []")
    case True
    with st(3) have "rest = []" by (simp add: utf8_decode_Nil_iff)
    with True st "1.prems"(3) bs show ?thesis by simp
  next
    case False
    with st(3) have rne: "rest \<noteq> []" by auto
    have "length rest < length bs" using bs st(2) by simp
    moreover have "ascii_ws (last r)" using "1.prems"(3) st(1) False by simp
    ultimately have "bytes_isspace (last rest)"
      using "1.IH" st(3) rne by blast
    with rne bs st(2) show ?thesis by simp
  qed
qed

lemma decode_strip_trimmed:
  assumes "utf8_decode (bytes_strip x) = Some s"
  shows "trimmed s"
proof (cases s)
  case Nil
  then show ?thesis by (simp add: trimmed_def)
next
  case (Cons cp r)
  with assms have "bytes_strip x \<noteq> []" by auto
  then obtain b bs where b: "bytes_strip x = b # bs" by (cases "bytes_strip x") auto
  from bytes_strip_ends [OF b] have e: "\<not> bytes_isspace b" "\<not> bytes_isspace (last (b # bs))"
    by auto
  from utf8_decode_hd [of b bs cp r] assms b Cons e(1) have "\<not> ascii_ws cp" by auto
  moreover from utf8_decode_last [of "b # bs" s] assms b e(2) have "\<not> ascii_ws (last s)" by auto
  ultimately show ?thesis using Cons by (simp add: trimmed_def)
qed

lemma has_sep_iff: "has_sep row \<longleftrightarrow> split_sep row \<noteq> None"
  by (induction row rule: has_sep.induct) auto

lemma entry_ok_AStr [simp]: "entry_ok (AStr k, v) \<longleftrightarrow> k \<noteq> [] \<and> trimmed k \<and> trimmed v"
  by (simp add: entry_ok_def)

lemma bmc_inv_dict_set:
  "bmc_inv b \<Longrightarrow> k \<noteq> [] \<Longrightarrow> trimmed k \<Longrightarrow> trimmed v \<Longrightarrow> bmc_inv (dict_set b (AStr k) v)"
  by (induction b) (auto simp: bmc_inv_def)

lemma parse_row_cases:
  "parse_row row b = (case split_sep row of
       None \<Rightarrow> Inr b
     | Some (key, val) \<Rightarrow>
         if bytes_strip key = [] then Inr b
         else (case utf8_decode (bytes_strip val) of
                 None \<Rightarrow> Inl UnicodeDecodeError
               | Some v \<Rightarrow>
                   (case utf8_decode (bytes_strip key) of
                      None \<Rightarrow> Inl UnicodeDecodeError
                    | Some k \<Rightarrow> Inr (dict_set b (AStr k) v))))"
  by (cases "split_sep row") (auto simp: parse_row_def has_sep_iff)

lemma parse_row_inv:
  assumes "bmc_inv b" and "parse_row row b = Inr b'"
  shows "bmc_inv b'"
proof (cases "split_sep row")
  case None
  with assms show ?thesis by (simp add: parse_row_cases)
next
  case (Some kv)
  obtain key val where kv: "kv = (key, val)" by (cases kv)
  show ?thesis
  proof (cases "bytes_strip key = []")
    case True
    with assms Some kv show ?thesis by (simp add: parse_row_cases)
  next
    case False
    from assms(2) Some kv False obtain v where v: "utf8_decode (bytes_strip val) = Some v"
      by (cases "utf8_decode (bytes_strip val)") (simp_all add: parse_row_cases)
    from assms(2) Some kv False v obtain k where k: "utf8_decode (bytes_strip key) = Some k"
      by (cases "utf8_decode (bytes_strip key)") (simp_all add: parse_row_cases)
    from assms(2) Some kv False v k have b': "b' = dict_set b (AStr k) v"
      by (simp add: parse_row_cases)
    have "k \<noteq> []" using k False by (auto simp: utf8_decode_Nil_iff)
    moreover have "trimmed k" using k by (rule decode_strip_trimmed)
    moreover have "trimmed v" using v by (rule decode_strip_trimmed)
    ultimately show ?thesis
      unfolding b' using assms(1) by (intro bmc_inv_dict_set)
  qed
qed

lemma parse_rows_inv: "bmc_inv b \<Longrightarrow> bmc_inv (fst (parse_rows rows b))"
proof (induction rows arbitrary: b)
  case Nil
  then show ?case by simp
next
  case (Cons row rows)
  show ?case
  proof (cases "parse_row row b")
    case (Inl e)
    with Cons.prems show ?thesis by simp
  next
    case (Inr b')
    with Cons.prems have "bmc_inv b'" by (simp add: parse_row_inv)
    with Inr Cons.IH show ?thesis by simp
  qed
qed






lemma split_nl_line:
  "CHR 0x0A \<notin> set row \<Longrightarrow> split_nl (row @ CHR 0x0A # rest) cur = (cur @ row) # split_nl rest []"
  by (induction row arbitrary: cur) auto

lemma split_nl_last: "CHR 0x0A \<notin> set row \<Longrightarrow> split_nl row cur = [cur @ row]"
  by (induction row arbitrary: cur) auto

lemma parse_cmd_line:
  "CHR 0x0A \<notin> set row \<Longrightarrow>
   parse_cmd (row @ CHR 0x0A # rest) stderr b
     = (case parse_row row b of Inl e \<Rightarrow> (b, Some e) | Inr b' \<Rightarrow> parse_cmd rest stderr b')"
  by (simp add: parse_cmd_def bytes_split_lines_def split_nl_line split: sum.splits)

lemma parse_cmd_last:
  "CHR 0x0A \<notin> set row \<Longrightarrow>
   parse_cmd row stderr b
     = (case parse_row row b of Inl e \<Rightarrow> (b, Some e) | Inr b' \<Rightarrow> (b', None))"
  by (simp add: parse_cmd_def bytes_split_lines_def split_nl_last split: sum.splits)

section \<open>Claims\<close>

text \<open>
  C1. A thermal document without a "Fans" key: \<open>.get("Fans")\<close> is \<open>None\<close> and the loop
  over it raises TypeError, so \<open>read_fans\<close> does not return \<open>{"Fan": {}}\<close>; this is also
  what happens on the document of the base class.  With a "Fans" list that is present
  and empty the result is \<open>{"Fan": {}}\<close>.
\<close>

theorem read_fans_missing_key_raises:
  "read_fans (PDict []) = Inl TypeError
   \<and> read_fans get_thermal = Inl TypeError
   \<and> read_fans (PDict [(U ''Name'', PStr (U ''x''))]) = Inl TypeError
   \<and> read_fans (PDict [(U ''Fans'', PList [])]) = Inr [(U ''Fan'', [])]"
  by (simp add: read_fans_def get_thermal_def)

text \<open>
  C4. \<open>read_power_consumption\<close> on a document whose "PowerControl" list holds entries
  that all carry "PowerConsumedWatts": an empty list gives \<open>{"Power": {}}\<close>; otherwise the
  inner dictionary has the single key "Chassis" bound to the Power metric named "Chassis"
  whose value is that of the last entry and whose unit is "Watts".
\<close>

theorem read_power_consumption_chassis:
  assumes "py_get doc (U ''PowerControl'') = Inr (PList es)"
    and "\<forall>e\<in>set es. \<exists>w. py_getitem e (U ''PowerConsumedWatts'') = Inr w"
  shows "(es = [] \<longrightarrow> read_power_consumption doc = Inr [(U ''Power'', [])])
    \<and> (es \<noteq> [] \<longrightarrow> (\<exists>w. py_getitem (last es) (U ''PowerConsumedWatts'') = Inr w
          \<and> read_power_consumption doc
              = Inr [(U ''Power'', [(AStr (U ''Chassis''), Power (AStr (U ''Chassis'')) w)])]
          \<and> m_name (Power (AStr (U ''Chassis'')) w) = AStr (U ''Chassis'')
          \<and> m_value (Power (AStr (U ''Chassis'')) w) = w
          \<and> m_unit (Power (AStr (U ''Chassis'')) w) = PStr (U ''Watts'')))"
proof (cases "es = []")
  case True
  with assms(1) show ?thesis
    by (simp add: read_power_consumption_def)
next
  case False
  with assms(2) obtain w where w: "py_getitem (last es) (U ''PowerConsumedWatts'') = Inr w"
    by (meson last_in_set)
  from consumption_loop [OF assms(2) False w, of "[]"] assms(1) False w show ?thesis
    by (simp add: read_power_consumption_def Power_def MonitorMetric_def)
qed

theorem read_power_consumption_chassis_witness:
  "read_power_consumption (PDict [(U ''PowerControl'', PList [])]) = Inr [(U ''Power'', [])]
   \<and> read_power_consumption (PDict [(U ''PowerControl'',
        PList [PDict [(U ''PowerConsumedWatts'', PInt 100)],
               PDict [(U ''PowerConsumedWatts'', PInt 250)]])])
     = Inr [(U ''Power'', [(AStr (U ''Chassis''), Power (AStr (U ''Chassis'')) (PInt 250))])]"
  using read_power_consumption_chassis [of "PDict [(U ''PowerControl'', PList [])]" "[]"]
    read_power_consumption_chassis [of "PDict [(U ''PowerControl'',
        PList [PDict [(U ''PowerConsumedWatts'', PInt 100)],
               PDict [(U ''PowerConsumedWatts'', PInt 250)]])]"
      "[PDict [(U ''PowerConsumedWatts'', PInt 100)], PDict [(U ''PowerConsumedWatts'', PInt 250)]]"]
  by simp


text \<open>
  C6. \<open>__eq__\<close> holds exactly when the names are equal as strings and the values and the
  units are equal; a Temperature has unit "Celsius" and a Power has unit "Watts", the
  class of the metric plays no part, and a name that is a member of an enumeration equals
  the string it prints as.
\<close>

theorem metric_eq_structural:
  "(metric_eq m1 m2 \<longleftrightarrow>
      py_str (m_name m1) = py_str (m_name m2)
      \<and> py_eq (m_value m1) (m_value m2) \<and> py_eq (m_unit m1) (m_unit m2))
   \<and> m_unit (Temperature n v) = PStr (U ''Celsius'')
   \<and> m_unit (Power n v) = PStr (U ''Watts'')
   \<and> m_name (Temperature n v) = n \<and> m_value (Temperature n v) = v
   \<and> m_name (Power n v) = n \<and> m_value (Power n v) = v
   \<and> (metric_eq (Temperature n v) (MonitorMetric n' v' u') \<longleftrightarrow>
        py_str n = py_str n' \<and> py_eq v v' \<and> py_eq (PStr (U ''Celsius'')) u')
   \<and> (metric_eq (Power n v) (MonitorMetric n' v' u') \<longleftrightarrow>
        py_str n = py_str n' \<and> py_eq v v' \<and> py_eq (PStr (U ''Watts'')) u')
   \<and> metric_eq (Temperature (AThermal CPU) (PInt 40)) (Temperature (AStr (U ''CPU'')) (PInt 40))
   \<and> \<not> metric_eq (Temperature (AStr (U ''CPU'')) (PInt 40)) (Power (AStr (U ''CPU'')) (PInt 40))"
  by (simp add: metric_eq_def Temperature_def Power_def MonitorMetric_def)

text \<open>
  C9. \<open>read_power_supplies\<close> raises IndexError only when some entry has a name without a
  character that is not white space: if every name has such a character the IndexError
  is not raised, and on a list of entries that all have a string "Name" and a
  "PowerInputWatts" the function returns exactly when every name has such a character
  and raises IndexError exactly when one has none.
\<close>

theorem read_power_supplies_blank_name:
  assumes "py_get doc (U ''PowerSupplies'') = Inr pv" and "py_iter pv = Inr es"
  shows "((\<forall>e\<in>set es. \<forall>s. py_getitem e (U ''Name'') = Inr (PStr s) \<longrightarrow> (\<exists>c\<in>set s. \<not> py_isspace c))
            \<longrightarrow> read_power_supplies doc \<noteq> Inl IndexError)
    \<and> ((\<forall>e\<in>set es. \<exists>s w. py_getitem e (U ''Name'') = Inr (PStr s)
            \<and> py_getitem e (U ''PowerInputWatts'') = Inr w) \<longrightarrow>
         ((\<exists>out. read_power_supplies doc = Inr out) \<longleftrightarrow>
            (\<forall>e\<in>set es. \<forall>s. py_getitem e (U ''Name'') = Inr (PStr s) \<longrightarrow> (\<exists>c\<in>set s. \<not> py_isspace c)))
         \<and> (read_power_supplies doc = Inl IndexError \<longleftrightarrow>
            (\<exists>e\<in>set es. \<exists>s. py_getitem e (U ''Name'') = Inr (PStr s) \<and> (\<forall>c\<in>set s. py_isspace c))))"
proof -
  have rd: "read_power_supplies doc
      = bindE (py_for supply_step es []) (\<lambda>inner. Inr [(PowerContext_str POWER, inner)])"
    using assms by (simp add: read_power_supplies_def)
  have a: "read_power_supplies doc = Inl IndexError \<longleftrightarrow> py_for supply_step es [] = Inl IndexError"
    unfolding rd by (cases "py_for supply_step es []") simp_all
  have b: "(\<exists>out. read_power_supplies doc = Inr out) \<longleftrightarrow> (\<exists>d'. py_for supply_step es [] = Inr d')"
    unfolding rd by (cases "py_for supply_step es []") simp_all
  have p1: "(\<forall>e\<in>set es. \<forall>s. py_getitem e (U ''Name'') = Inr (PStr s) \<longrightarrow> (\<exists>c\<in>set s. \<not> py_isspace c))
            \<longrightarrow> read_power_supplies doc \<noteq> Inl IndexError"
    unfolding a using supply_loop_IndexError [of es "[]"] by blast
  have p2: "(\<forall>e\<in>set es. \<exists>s w. py_getitem e (U ''Name'') = Inr (PStr s)
            \<and> py_getitem e (U ''PowerInputWatts'') = Inr w) \<longrightarrow>
         ((\<exists>out. read_power_supplies doc = Inr out) \<longleftrightarrow>
            (\<forall>e\<in>set es. \<forall>s. py_getitem e (U ''Name'') = Inr (PStr s) \<longrightarrow> (\<exists>c\<in>set s. \<not> py_isspace c)))
         \<and> (read_power_supplies doc = Inl IndexError \<longleftrightarrow>
            (\<exists>e\<in>set es. \<exists>s. py_getitem e (U ''Name'') = Inr (PStr s) \<and> (\<forall>c\<in>set s. py_isspace c)))"
  proof
    assume sh: "\<forall>e\<in>set es. \<exists>s w. py_getitem e (U ''Name'') = Inr (PStr s)
            \<and> py_getitem e (U ''PowerInputWatts'') = Inr w"
    from supply_loop_shaped [OF sh, of "[]"] show "((\<exists>out. read_power_supplies doc = Inr out) \<longleftrightarrow>
            (\<forall>e\<in>set es. \<forall>s. py_getitem e (U ''Name'') = Inr (PStr s) \<longrightarrow> (\<exists>c\<in>set s. \<not> py_isspace c)))
         \<and> (read_power_supplies doc = Inl IndexError \<longleftrightarrow>
            (\<exists>e\<in>set es. \<exists>s. py_getitem e (U ''Name'') = Inr (PStr s) \<and> (\<forall>c\<in>set s. py_isspace c)))"
      unfolding a b by (auto split: if_splits)
  qed
  from p1 p2 show ?thesis by blast
qed

theorem read_power_supplies_blank_name_witness:
  "read_power_supplies (PDict [(U ''PowerSupplies'',
       PList [PDict [(U ''Name'', PStr (U ''PSU 1'')), (U ''PowerInputWatts'', PInt 42)]])])
     \<noteq> Inl IndexError
   \<and> (\<exists>out. read_power_supplies (PDict [(U ''PowerSupplies'',
       PList [PDict [(U ''Name'', PStr (U ''PSU 1'')), (U ''PowerInputWatts'', PInt 42)]])]) = Inr out)
   \<and> read_power_supplies (PDict [(U ''PowerSupplies'',
       PList [PDict [(U ''Name'', PStr (U ''  '')), (U ''PowerInputWatts'', PInt 42)]])])
     = Inl IndexError
   \<and> read_power_supplies (PDict [(U ''PowerSupplies'',
       PList [PDict [(U ''Name'', PStr []), (U ''PowerInputWatts'', PInt 42)]])])
     = Inl IndexError"
  using read_power_supplies_blank_name [of "PDict [(U ''PowerSupplies'',
       PList [PDict [(U ''Name'', PStr (U ''PSU 1'')), (U ''PowerInputWatts'', PInt 42)]])]"
       "PList [PDict [(U ''Name'', PStr (U ''PSU 1'')), (U ''PowerInputWatts'', PInt 42)]]"
       "[PDict [(U ''Name'', PStr (U ''PSU 1'')), (U ''PowerInputWatts'', PInt 42)]]"]
    read_power_supplies_blank_name [of "PDict [(U ''PowerSupplies'',
       PList [PDict [(U ''Name'', PStr (U ''  '')), (U ''PowerInputWatts'', PInt 42)]])]"
       "PList [PDict [(U ''Name'', PStr (U ''  '')), (U ''PowerInputWatts'', PInt 42)]]"
       "[PDict [(U ''Name'', PStr (U ''  '')), (U ''PowerInputWatts'', PInt 42)]]"]
    read_power_supplies_blank_name [of "PDict [(U ''PowerSupplies'',
       PList [PDict [(U ''Name'', PStr []), (U ''PowerInputWatts'', PInt 42)]])]"
       "PList [PDict [(U ''Name'', PStr []), (U ''PowerInputWatts'', PInt 42)]]"
       "[PDict [(U ''Name'', PStr []), (U ''PowerInputWatts'', PInt 42)]]"]
  by (simp add: U_def py_isspace_def)


text \<open>
  C7. A fetch whose request raises RetriesExhaustedError or JSONDecodeError does not give
  \<open>None\<close>: the \<open>except\<close> clauses read the local variable \<open>redfish\<close>, which is unbound, and
  UnboundLocalError leaves \<open>get_redfish_url\<close>.  A response with an "error" key gives the
  empty document and is logged; other responses are returned as they are.
\<close>

theorem get_redfish_url_exception_escapes:
  "get_redfish_url (Inl RetriesExhaustedError) = (Inl UnboundLocalError, False)
   \<and> get_redfish_url (Inl JSONDecodeError) = (Inl UnboundLocalError, False)
   \<and> get_redfish_url (Inr (PDict [(U ''error'', PDict [(U ''code'', PStr (U ''iLO.0.10.ExtendedInfo''))])]))
       = (Inr (PDict []), True)
   \<and> get_redfish_url (Inr (PDict [(U ''Fans'', PList [])])) = (Inr (PDict [(U ''Fans'', PList [])]), False)
   \<and> get_redfish_url (Inr PNone) = (Inr PNone, False)"
  by (simp add: get_redfish_url_def except_clauses_def)

text \<open>
  C8. \<open>get_ip\<close> returns the value under "IP Address" when the key is present; when it is
  absent, and only then, the call ends in the fatal exit with the message
  "Cannot detect BMC ip", and it ends in no other way.
\<close>

theorem get_ip_fatal_iff_absent:
  "(dict_lookup b (AStr (U ''IP Address'')) = Some ip \<longrightarrow> get_ip b = Inr ip)
   \<and> (dict_lookup b (AStr (U ''IP Address'')) = None
        \<longrightarrow> get_ip b = Inl (Fatal (U ''Cannot detect BMC ip'')))
   \<and> ((\<exists>reason. get_ip b = Inl (Fatal reason)) \<longleftrightarrow> dict_lookup b (AStr (U ''IP Address'')) = None)
   \<and> ((\<exists>ip. get_ip b = Inr ip) \<longleftrightarrow> dict_lookup b (AStr (U ''IP Address'')) \<noteq> None)
   \<and> (\<forall>e. get_ip b = Inl e \<longrightarrow> e = Fatal (U ''Cannot detect BMC ip''))"
  by (cases "dict_lookup b (AStr (U ''IP Address''))") (simp_all add: get_ip_def fatal_def)

theorem get_ip_fatal_iff_absent_witness:
  "get_ip [(AStr (U ''IP Address Source''), U ''Static Address''), (AStr (U ''IP Address''), U ''10.0.0.1'')]
     = Inr (U ''10.0.0.1'')
   \<and> get_ip [(AStr (U ''IP Address Source''), U ''Static Address'')]
     = Inl (Fatal (U ''Cannot detect BMC ip''))"
proof -
  have a: "dict_lookup [(AStr (U ''IP Address Source''), U ''Static Address''),
      (AStr (U ''IP Address''), U ''10.0.0.1'')] (AStr (U ''IP Address'')) = Some (U ''10.0.0.1'')"
    by simp
  have b: "dict_lookup [(AStr (U ''IP Address Source''), U ''Static Address'')]
      (AStr (U ''IP Address'')) = None"
    by simp
  from get_ip_fatal_iff_absent [of "[(AStr (U ''IP Address Source''), U ''Static Address''),
        (AStr (U ''IP Address''), U ''10.0.0.1'')]" "U ''10.0.0.1''"] a
  have 1: "get_ip [(AStr (U ''IP Address Source''), U ''Static Address''),
      (AStr (U ''IP Address''), U ''10.0.0.1'')] = Inr (U ''10.0.0.1'')"
    by blast
  from get_ip_fatal_iff_absent [of "[(AStr (U ''IP Address Source''), U ''Static Address'')]"] b
  have 2: "get_ip [(AStr (U ''IP Address Source''), U ''Static Address'')]
     = Inl (Fatal (U ''Cannot detect BMC ip''))"
    by blast
  from 1 2 show ?thesis by blast
qed

text \<open>
  C2. As stated the claim fails when a name is repeated: of two entries named "PSU 1", with
  42 and with 7 watts, the key "PSU 1" holds the value 7, not the 42 of the first entry.
\<close>

theorem read_power_supplies_duplicate_name:
  "read_power_supplies (PDict [(U ''PowerSupplies'', PList [PDict [(U ''Name'', PStr (U ''PSU 1'')), (U ''PowerInputWatts'', PInt 42)], PDict [(U ''Name'', PStr (U ''PSU 1'')), (U ''PowerInputWatts'', PInt 7)]])])
     = Inr [(U ''Power'', [(AStr (U ''PSU 1''), Power (AStr (U ''PSU'')) (PInt 7))])]
   \<and> py_getitem (PDict [(U ''Name'', PStr (U ''PSU 1'')), (U ''PowerInputWatts'', PInt 42)]) (U ''PowerInputWatts'') = Inr (PInt 42)
   \<and> m_value (Power (AStr (U ''PSU'')) (PInt 7)) \<noteq> PInt 42"
proof -
  have sp: "py_split (U ''PSU 1'') = [U ''PSU'', U ''1'']"
    by (simp add: py_split_def U_def py_isspace_def)
  show ?thesis
    by (simp add: read_power_supplies_def supply_step_def sp Power_def MonitorMetric_def)
qed

text \<open>
  C2, amended. On every power document whose "PowerSupplies" entries each have a string
  "Name" with a character that is not white space and a "PowerInputWatts",
  \<open>read_power_supplies\<close> returns, and an entry named \<open>s\<close> is found in the "Power" group under
  the key \<open>s\<close>, the whole name; the metric there is a Power metric whose name is the first
  token of \<open>s.split()\<close> and whose unit is "Watts"; its value is the "PowerInputWatts" of the
  last entry that carries this name, which is the entry's own when no later entry repeats
  the name.  The entry named "PSU 1" with 42 watts gives the key "PSU 1" and the metric
  Power("PSU", 42).
\<close>

theorem read_power_supplies_last_entry_wins:
  assumes "py_get doc (U ''PowerSupplies'') = Inr pv" and "py_iter pv = Inr es"
    and "\<forall>e\<in>set es. \<exists>s w. py_getitem e (U ''Name'') = Inr (PStr s)
       \<and> (\<exists>c\<in>set s. \<not> py_isspace c) \<and> py_getitem e (U ''PowerInputWatts'') = Inr w"
    and "e \<in> set es" and "py_getitem e (U ''Name'') = Inr (PStr s)"
  shows "\<exists>inner tok rest w. read_power_supplies doc = Inr [(U ''Power'', inner)]
      \<and> dict_lookup inner (AStr s) = Some (Power (AStr tok) w)
      \<and> (AStr s, Power (AStr tok) w) \<in> set inner
      \<and> py_split s = tok # rest
      \<and> m_name (Power (AStr tok) w) = AStr tok
      \<and> m_value (Power (AStr tok) w) = w
      \<and> m_unit (Power (AStr tok) w) = PStr (U ''Watts'')
      \<and> py_getitem (last (filter (\<lambda>e'. py_getitem e' (U ''Name'') = Inr (PStr s)) es))
            (U ''PowerInputWatts'') = Inr w
      \<and> (last (filter (\<lambda>e'. py_getitem e' (U ''Name'') = Inr (PStr s)) es) = e
            \<longrightarrow> py_getitem e (U ''PowerInputWatts'') = Inr w)"
proof -
  from supply_loop_returns [OF assms(3), of "[]"] obtain inner where
    inner: "py_for supply_step es [] = Inr inner"
    by blast
  with assms(1,2) have out: "read_power_supplies doc = Inr [(U ''Power'', inner)]"
    by (simp add: read_power_supplies_def)
  from assms(4,5) have ne: "filter (\<lambda>e'. py_getitem e' (U ''Name'') = Inr (PStr s)) es \<noteq> []"
    by (auto simp: filter_empty_conv)
  from supply_loop_lookup [OF inner, of s] ne obtain tok rest w where
    r: "py_split s = tok # rest"
       "py_getitem (last (filter (\<lambda>e. py_getitem e (U ''Name'') = Inr (PStr s)) es))
            (U ''PowerInputWatts'') = Inr w"
       "dict_lookup inner (AStr s) = Some (Power (AStr tok) w)"
    by auto
  from dict_lookup_Some_mem [OF r(3)] have mem: "(AStr s, Power (AStr tok) w) \<in> set inner"
    by auto
  have sel: "m_name (Power (AStr tok) w) = AStr tok" "m_value (Power (AStr tok) w) = w"
      "m_unit (Power (AStr tok) w) = PStr (U ''Watts'')"
    by (simp_all add: Power_def MonitorMetric_def)
  have own: "last (filter (\<lambda>e'. py_getitem e' (U ''Name'') = Inr (PStr s)) es) = e
            \<longrightarrow> py_getitem e (U ''PowerInputWatts'') = Inr w"
    using r(2) by auto
  from out r mem sel own show ?thesis by blast
qed

theorem read_power_supplies_last_entry_wins_witness:
  "read_power_supplies (PDict [(U ''PowerSupplies'', PList [PDict [(U ''Name'', PStr (U ''PSU 1'')), (U ''PowerInputWatts'', PInt 42)]])])
     = Inr [(U ''Power'', [(AStr (U ''PSU 1''), Power (AStr (U ''PSU'')) (PInt 42))])]
   \<and> (\<exists>inner. read_power_supplies (PDict [(U ''PowerSupplies'', PList [PDict [(U ''Name'', PStr (U ''PSU 1'')), (U ''PowerInputWatts'', PInt 42)]])])
         = Inr [(U ''Power'', inner)]
       \<and> dict_lookup inner (AStr (U ''PSU 1'')) = Some (Power (AStr (U ''PSU'')) (PInt 42)))
   \<and> m_name (Power (AStr (U ''PSU'')) (PInt 42)) = AStr (U ''PSU'')
   \<and> m_value (Power (AStr (U ''PSU'')) (PInt 42)) = PInt 42
   \<and> m_unit (Power (AStr (U ''PSU'')) (PInt 42)) = PStr (U ''Watts'')"
proof -
  let ?e = "PDict [(U ''Name'', PStr (U ''PSU 1'')), (U ''PowerInputWatts'', PInt 42)]"
  let ?doc = "PDict [(U ''PowerSupplies'', PList [?e])]"
  have g: "py_get ?doc (U ''PowerSupplies'') = Inr (PList [?e])" by simp
  have i: "py_iter (PList [?e]) = Inr [?e]" by simp
  have nb: "\<exists>c\<in>set (U ''PSU 1''). \<not> py_isspace c"
    by (simp add: U_def py_isspace_def)
  have sh: "\<forall>e\<in>set [?e]. \<exists>s w. py_getitem e (U ''Name'') = Inr (PStr s)
       \<and> (\<exists>c\<in>set s. \<not> py_isspace c) \<and> py_getitem e (U ''PowerInputWatts'') = Inr w"
    using nb by simp
  have m: "?e \<in> set [?e]" by simp
  have n: "py_getitem ?e (U ''Name'') = Inr (PStr (U ''PSU 1''))" by simp
  have sp: "py_split (U ''PSU 1'') = [U ''PSU'', U ''1'']"
    by (simp add: py_split_def U_def py_isspace_def)
  have l: "last (filter (\<lambda>e'. py_getitem e' (U ''Name'') = Inr (PStr (U ''PSU 1''))) [?e]) = ?e"
    by simp
  from read_power_supplies_last_entry_wins [OF g i sh m n] obtain inner tok rest w where
    r: "read_power_supplies ?doc = Inr [(U ''Power'', inner)]"
       "dict_lookup inner (AStr (U ''PSU 1'')) = Some (Power (AStr tok) w)"
       "py_split (U ''PSU 1'') = tok # rest"
       "last (filter (\<lambda>e'. py_getitem e' (U ''Name'') = Inr (PStr (U ''PSU 1''))) [?e]) = ?e
            \<longrightarrow> py_getitem ?e (U ''PowerInputWatts'') = Inr w"
    by blast
  from r(3) sp have tok: "tok = U ''PSU''" by simp
  from r(4) l have w: "w = PInt 42" by simp
  have ev: "read_power_supplies ?doc
      = Inr [(U ''Power'', [(AStr (U ''PSU 1''), Power (AStr (U ''PSU'')) (PInt 42))])]"
    by (simp add: read_power_supplies_def supply_step_def sp)
  have sel: "m_name (Power (AStr (U ''PSU'')) (PInt 42)) = AStr (U ''PSU'')"
      "m_value (Power (AStr (U ''PSU'')) (PInt 42)) = PInt 42"
      "m_unit (Power (AStr (U ''PSU'')) (PInt 42)) = PStr (U ''Watts'')"
    by (simp_all add: Power_def MonitorMetric_def)
  from r(1) r(2) have ex: "\<exists>inner. read_power_supplies ?doc = Inr [(U ''Power'', inner)]
       \<and> dict_lookup inner (AStr (U ''PSU 1'')) = Some (Power (AStr (U ''PSU'')) (PInt 42))"
    unfolding tok w by blast
  from ev ex sel show ?thesis by blast
qed






text \<open>
  C10. As stated the claim fails for white space that \<open>bytes.strip()\<close> does not remove: the
  row \<open>b"\\x1cIP: 1"\<close> stores the key \<open>"\\x1cIP"\<close>, which begins with U+001C, a character
  \<open>str.isspace\<close> accepts and \<open>str.split()\<close> drops.
\<close>

theorem parse_cmd_keeps_unicode_space:
  "parse_cmd [CHR 0x1C, CHR ''I'', CHR ''P'', CHR '':'', CHR '' '', CHR ''1''] [] []
     = ([(AStr [28, 73, 80], [49])], None)
   \<and> py_isspace 28
   \<and> py_split [28, 73, 80] = [[73, 80]]"
  by (simp add: parse_cmd_def bytes_split_lines_def parse_row_def bytes_strip_def
      bytes_isspace_def ascii_ws_def py_isspace_def py_split_def)

text \<open>
  C10, amended. After every call of \<open>parse_cmd\<close>, also one that a decoding error ends, the
  discovery mapping holds only entries whose key is a string that is not empty and has
  none of the six ASCII white space characters that \<open>bytes.strip()\<close> removes at either
  end, with a value trimmed in the same way, provided that held before the call; it holds
  of the empty mapping the controller starts with.  A row without the separator
  contributes nothing, a row whose key strips to empty is skipped, and a row whose key and
  value decode stores the value under the key, at the place of an earlier entry with
  that key if there is one, leaving the other keys as they were.  The call treats the
  rows one after the other, each on the mapping the row before it left, and stops at the
  first row that raises.
\<close>

theorem parse_cmd_keeps_invariant:
  "(bmc_inv b \<longrightarrow> bmc_inv (fst (parse_cmd stdout stderr b)))
   \<and> bmc_inv (fst (parse_cmd stdout stderr []))
   \<and> (\<not> has_sep row \<longrightarrow> parse_row row b = Inr b)
   \<and> (has_sep row \<longrightarrow> split_sep row = Some (key, val) \<longrightarrow> bytes_strip key = []
        \<longrightarrow> parse_row row b = Inr b)
   \<and> (has_sep row \<longrightarrow> split_sep row = Some (key, val) \<longrightarrow> bytes_strip key \<noteq> []
        \<longrightarrow> utf8_decode (bytes_strip key) = Some k \<longrightarrow> utf8_decode (bytes_strip val) = Some v
        \<longrightarrow> parse_row row b = Inr (dict_set b (AStr k) v)
            \<and> dict_lookup (dict_set b (AStr k) v) (AStr k) = Some v
            \<and> map fst (dict_set b (AStr k) v) = add_key (map fst b) (AStr k)
            \<and> (\<forall>k'. k' \<noteq> AStr k \<longrightarrow> dict_lookup (dict_set b (AStr k) v) k' = dict_lookup b k'))
   \<and> parse_row row b \<noteq> Inl ValueError
   \<and> (CHR 0x0A \<notin> set row \<longrightarrow>
        parse_cmd (row @ CHR 0x0A # rest) stderr b
          = (case parse_row row b of Inl e \<Rightarrow> (b, Some e)
             | Inr b' \<Rightarrow> parse_cmd rest stderr b'))
   \<and> (CHR 0x0A \<notin> set row \<longrightarrow>
        parse_cmd row stderr b
          = (case parse_row row b of Inl e \<Rightarrow> (b, Some e) | Inr b' \<Rightarrow> (b', None)))"
proof -
  have inv0: "bmc_inv []" by (simp add: bmc_inv_def)
  have p1: "bmc_inv b \<longrightarrow> bmc_inv (fst (parse_cmd stdout stderr b))"
    by (simp add: parse_cmd_def parse_rows_inv)
  have p2: "bmc_inv (fst (parse_cmd stdout stderr []))"
    using inv0 by (simp add: parse_cmd_def parse_rows_inv)
  have p3: "\<not> has_sep row \<longrightarrow> parse_row row b = Inr b"
    by (simp add: parse_row_def)
  have p4: "has_sep row \<longrightarrow> split_sep row = Some (key, val) \<longrightarrow> bytes_strip key = []
        \<longrightarrow> parse_row row b = Inr b"
    by (simp add: parse_row_def)
  have p5: "has_sep row \<longrightarrow> split_sep row = Some (key, val) \<longrightarrow> bytes_strip key \<noteq> []
        \<longrightarrow> utf8_decode (bytes_strip key) = Some k \<longrightarrow> utf8_decode (bytes_strip val) = Some v
        \<longrightarrow> parse_row row b = Inr (dict_set b (AStr k) v)
            \<and> dict_lookup (dict_set b (AStr k) v) (AStr k) = Some v
            \<and> map fst (dict_set b (AStr k) v) = add_key (map fst b) (AStr k)
            \<and> (\<forall>k'. k' \<noteq> AStr k \<longrightarrow> dict_lookup (dict_set b (AStr k) v) k' = dict_lookup b k')"
    by (auto simp: parse_row_def dict_lookup_set keys_dict_set)
  have p6: "parse_row row b \<noteq> Inl ValueError"
    by (auto simp: parse_row_cases split: option.splits)
  have p7: "CHR 0x0A \<notin> set row \<longrightarrow>
        parse_cmd (row @ CHR 0x0A # rest) stderr b
          = (case parse_row row b of Inl e \<Rightarrow> (b, Some e)
             | Inr b' \<Rightarrow> parse_cmd rest stderr b')"
    by (simp add: parse_cmd_line)
  have p8: "CHR 0x0A \<notin> set row \<longrightarrow>
        parse_cmd row stderr b
          = (case parse_row row b of Inl e \<Rightarrow> (b, Some e) | Inr b' \<Rightarrow> (b', None))"
    by (simp add: parse_cmd_last)
  from p1 p2 p3 p4 p5 p6 p7 p8 show ?thesis by blast
qed

theorem parse_cmd_keeps_invariant_witness:
  "bmc_inv [(AStr (U ''IP Address''), U ''10.0.0.2'')]
   \<and> parse_cmd (''IP Address   : 10.0.0.1'' @ [CHR 0x0A] @ ''junk'' @ [CHR 0x0A] @ '' : x''
       @ [CHR 0x0A] @ ''IP Address   : 10.0.0.2'' @ [CHR 0x0A]) [] []
     = ([(AStr (U ''IP Address''), U ''10.0.0.2'')], None)
   \<and> parse_row ''junk'' [(AStr (U ''IP Address''), U ''10.0.0.1'')]
     = Inr [(AStr (U ''IP Address''), U ''10.0.0.1'')]
   \<and> parse_row '' : x'' [(AStr (U ''IP Address''), U ''10.0.0.1'')]
     = Inr [(AStr (U ''IP Address''), U ''10.0.0.1'')]
   \<and> parse_row ''IP Address   : 10.0.0.2'' [(AStr (U ''IP Address''), U ''10.0.0.1'')]
     = Inr [(AStr (U ''IP Address''), U ''10.0.0.2'')]"
proof -
  let ?out = "''IP Address   : 10.0.0.1'' @ [CHR 0x0A] @ ''junk'' @ [CHR 0x0A] @ '' : x''
       @ [CHR 0x0A] @ ''IP Address   : 10.0.0.2'' @ [CHR 0x0A]"
  let ?b = "[(AStr (U ''IP Address''), U ''10.0.0.1'')]"
  have ev: "parse_cmd ?out [] [] = ([(AStr (U ''IP Address''), U ''10.0.0.2'')], None)"
    by (simp add: parse_cmd_def bytes_split_lines_def parse_row_def bytes_strip_def
        bytes_isspace_def ascii_ws_def U_def)
  have h1: "\<not> has_sep ''junk''" by simp
  have h2: "has_sep '' : x''" "split_sep '' : x'' = Some ('' '', ''x'')" "bytes_strip '' '' = []"
    by (simp_all add: bytes_strip_def bytes_isspace_def ascii_ws_def)
  have h3: "has_sep ''IP Address   : 10.0.0.2''"
      "split_sep ''IP Address   : 10.0.0.2'' = Some (''IP Address   '', ''10.0.0.2'')"
      "bytes_strip ''IP Address   '' \<noteq> []"
      "utf8_decode (bytes_strip ''IP Address   '') = Some (U ''IP Address'')"
      "utf8_decode (bytes_strip ''10.0.0.2'') = Some (U ''10.0.0.2'')"
    by (simp_all add: bytes_strip_def bytes_isspace_def ascii_ws_def U_def)
  note T = parse_cmd_keeps_invariant
  from T [of "[]" ?out "[]"] ev have 1: "bmc_inv [(AStr (U ''IP Address''), U ''10.0.0.2'')]"
    by simp
  from T [of ?b _ _ "''junk''"] h1 have 2: "parse_row ''junk'' ?b = Inr ?b"
    by blast
  from T [of ?b _ _ "'' : x''" "'' ''" "''x''"] h2 have 3: "parse_row '' : x'' ?b = Inr ?b"
    by blast
  from T [of ?b _ _ "''IP Address   : 10.0.0.2''" "''IP Address   ''" "''10.0.0.2''"
      "U ''IP Address''" "U ''10.0.0.2''"] h3
  have "parse_row ''IP Address   : 10.0.0.2'' ?b
      = Inr (dict_set ?b (AStr (U ''IP Address'')) (U ''10.0.0.2''))"
    by blast
  then have 4: "parse_row ''IP Address   : 10.0.0.2'' ?b
      = Inr [(AStr (U ''IP Address''), U ''10.0.0.2'')]"
    by simp
  from 1 ev 2 3 4 show ?thesis by blast
qed






end
